theory Spec2Isabelle
  imports Complex_Main
begin

section \<open>JavaScript numbers\<close>

text \<open>
  Every quantity of \<^verbatim>\<open>src/lib/sensorProcessing.ts\<close> is a JavaScript \<^verbatim>\<open>number\<close>.
  The model keeps the special values of the number type, because the outlier test
  divides by a standard deviation that can be zero: a finite number carries an exact
  real, and \<open>Infinity\<close>, \<open>-Infinity\<close> and \<open>NaN\<close> are values of their own.
  The operations of this section give the exact result of each operation on finite
  numbers; the rounding of that result to binary64, with its overflow and underflow, is
  defined in the section on binary64 arithmetic, where the functions of the program are
  given again with every result rounded. There is one zero, standing for \<open>+0\<close>;
  every divisor of the program is an array length or the result of \<open>Math.sqrt\<close> of a
  sum of squares started at \<open>0\<close>, so no divisor is \<open>-0\<close>.
\<close>

datatype number = Fin real | PosInf | NegInf | NaN

text \<open>Unary minus, used to write \<open>a - b\<close> as \<open>a + (-b)\<close>.\<close>

fun jneg :: "number \<Rightarrow> number" where
  "jneg (Fin a) = Fin (- a)"
| "jneg PosInf = NegInf"
| "jneg NegInf = PosInf"
| "jneg NaN = NaN"

text \<open>\<open>a + b\<close>: opposite infinities give \<open>NaN\<close>.\<close>

fun jadd :: "number \<Rightarrow> number \<Rightarrow> number" where
  "jadd NaN _ = NaN"
| "jadd _ NaN = NaN"
| "jadd (Fin a) (Fin b) = Fin (a + b)"
| "jadd PosInf NegInf = NaN"
| "jadd NegInf PosInf = NaN"
| "jadd PosInf _ = PosInf"
| "jadd NegInf _ = NegInf"
| "jadd (Fin a) b = b"

definition jsub :: "number \<Rightarrow> number \<Rightarrow> number" where
  "jsub a b = jadd a (jneg b)"

text \<open>The infinity of the sign of a real, and \<open>NaN\<close> at zero.\<close>

definition signed_inf :: "real \<Rightarrow> number" where
  "signed_inf s = (if s = 0 then NaN else if 0 < s then PosInf else NegInf)"

text \<open>\<open>a * b\<close>: an infinity times zero is \<open>NaN\<close>.\<close>

fun jmul :: "number \<Rightarrow> number \<Rightarrow> number" where
  "jmul NaN _ = NaN"
| "jmul _ NaN = NaN"
| "jmul (Fin a) (Fin b) = Fin (a * b)"
| "jmul (Fin a) PosInf = signed_inf a"
| "jmul (Fin a) NegInf = signed_inf (- a)"
| "jmul PosInf (Fin b) = signed_inf b"
| "jmul NegInf (Fin b) = signed_inf (- b)"
| "jmul PosInf PosInf = PosInf"
| "jmul NegInf NegInf = PosInf"
| "jmul PosInf NegInf = NegInf"
| "jmul NegInf PosInf = NegInf"

text \<open>
  \<open>a / b\<close>: \<open>0 / 0\<close> is \<open>NaN\<close>, a non-zero finite number over zero is the infinity
  of its sign, a finite number over an infinity is zero, an infinity over an infinity
  is \<open>NaN\<close>.
\<close>

fun jdiv :: "number \<Rightarrow> number \<Rightarrow> number" where
  "jdiv NaN _ = NaN"
| "jdiv _ NaN = NaN"
| "jdiv (Fin a) (Fin b) = (if b = 0 then signed_inf a else Fin (a / b))"
| "jdiv (Fin a) PosInf = Fin 0"
| "jdiv (Fin a) NegInf = Fin 0"
| "jdiv PosInf (Fin b) = (if 0 \<le> b then PosInf else NegInf)"
| "jdiv NegInf (Fin b) = (if 0 \<le> b then NegInf else PosInf)"
| "jdiv PosInf _ = NaN"
| "jdiv NegInf _ = NaN"

text \<open>\<open>a > b\<close>: false as soon as one side is \<open>NaN\<close>.\<close>

fun jgt :: "number \<Rightarrow> number \<Rightarrow> bool" where
  "jgt NaN _ = False"
| "jgt _ NaN = False"
| "jgt (Fin a) (Fin b) = (b < a)"
| "jgt PosInf PosInf = False"
| "jgt PosInf _ = True"
| "jgt NegInf _ = False"
| "jgt (Fin a) PosInf = False"
| "jgt (Fin a) NegInf = True"

text \<open>\<open>Math.abs\<close>, \<open>Math.sqrt\<close>, \<open>Math.min\<close> and \<open>Math.pow(x, 2)\<close>.\<close>

fun Math_abs :: "number \<Rightarrow> number" where
  "Math_abs (Fin a) = Fin \<bar>a\<bar>"
| "Math_abs PosInf = PosInf"
| "Math_abs NegInf = PosInf"
| "Math_abs NaN = NaN"

fun Math_sqrt :: "number \<Rightarrow> number" where
  "Math_sqrt (Fin a) = (if a < 0 then NaN else Fin (sqrt a))"
| "Math_sqrt PosInf = PosInf"
| "Math_sqrt NegInf = NaN"
| "Math_sqrt NaN = NaN"

fun Math_min :: "number \<Rightarrow> number \<Rightarrow> number" where
  "Math_min NaN _ = NaN"
| "Math_min _ NaN = NaN"
| "Math_min a b = (if jgt a b then b else a)"

fun Math_pow_2 :: "number \<Rightarrow> number" where
  "Math_pow_2 (Fin a) = Fin (a ^ 2)"
| "Math_pow_2 PosInf = PosInf"
| "Math_pow_2 NegInf = PosInf"
| "Math_pow_2 NaN = NaN"

text \<open>The \<open>length\<close> property of an array, as a number.\<close>

definition array_length :: "'a list \<Rightarrow> number" where
  "array_length xs = Fin (real (length xs))"

section \<open>The data of the pipeline\<close>

record RawSensorData =
  raw_depth :: number
  raw_turbidity :: number
  raw_temperature :: number
  voltage :: number
  battery_level :: number
  signal_strength :: number

record ProcessedSensorData =
  depth :: number
  turbidity :: number
  temperature :: number
  sediment_level :: number
  quality_score :: number
  is_outlier :: bool

text \<open>
  The two fields of a calibration that the pipeline reads, and a row of the
  \<open>sensor_calibration\<close> table, which has them among others.
\<close>

record calibration =
  offset_value :: number
  scale_factor :: number

record sensor_calibration_row = calibration +
  id :: number
  created_at :: string
  sensor_id :: number
  parameter :: string
  last_calibration :: string
  next_calibration :: string
  calibration_formula :: string

text \<open>
  What awaiting a query of the store client yields: the rows, or \<open>null\<close> rows and an
  error object. The client reports a failed request in the \<open>error\<close> field and does
  not throw. The client itself is outside the repository's code, so the pipeline takes
  it as a parameter: the calibration query for a sensor id, newest row first, at most
  one row.
\<close>

datatype error = Error string

record response =
  data :: "sensor_calibration_row list option"
  error :: "error option"

type_synonym supabase = "number \<Rightarrow> response"

section \<open>The moving average filter\<close>

record MovingAverageFilter =
  windowSize :: number
  values' :: "number list"

text \<open>
  The class field \<open>values\<close> is written \<open>values'\<close>. The constructor stores the
  window size and an empty array. A constructor can throw, so its result is a sum; this
  one has no \<open>throw\<close>.
\<close>

definition MovingAverageFilter_new :: "number \<Rightarrow> error + MovingAverageFilter" where
  "MovingAverageFilter_new windowSize' = Inr \<lparr>windowSize = windowSize', values' = []\<rparr>"

text \<open>
  \<open>process\<close> pushes the value, shifts the oldest value out when the array is longer
  than the window, and returns the sum of the array (a left fold from \<open>0\<close>) over its
  length, with the updated filter.
\<close>

definition process :: "MovingAverageFilter \<Rightarrow> number \<Rightarrow> number \<times> MovingAverageFilter" where
  "process this val =
     (let pushed = values' this @ [val];
          kept = (if jgt (array_length pushed) (windowSize this) then tl pushed else pushed)
      in (jdiv (foldl (\<lambda>a b. jadd a b) (Fin 0) kept) (array_length kept),
          this\<lparr>values' := kept\<rparr>))"

text \<open>A sequence of \<open>process\<close> calls on one filter: the outputs in order, and the filter.\<close>

fun process_each :: "MovingAverageFilter \<Rightarrow> number list \<Rightarrow> number list \<times> MovingAverageFilter" where
  "process_each this [] = ([], this)"
| "process_each this (v # vs) =
     (let (out, this') = process this v;
          (outs, this'') = process_each this' vs
      in (out # outs, this''))"

section \<open>Statistics and the outlier test\<close>

record stats =
  mean :: number
  stdDev :: number

definition isOutlier :: "number \<Rightarrow> number \<Rightarrow> number \<Rightarrow> number \<Rightarrow> bool" where
  "isOutlier val mean' stdDev' threshold = jgt (Math_abs (jdiv (jsub val mean') stdDev')) threshold"

definition calculateStats :: "number list \<Rightarrow> stats" where
  "calculateStats vals =
     (let mean' = jdiv (foldl (\<lambda>a b. jadd a b) (Fin 0) vals) (array_length vals);
          variance = jdiv (foldl (\<lambda>a b. jadd a (Math_pow_2 (jsub b mean'))) (Fin 0) vals)
                       (array_length vals)
      in \<lparr>mean = mean', stdDev = Math_sqrt variance\<rparr>)"

section \<open>Processing a reading\<close>

text \<open>
  \<open>processSensorData\<close> awaits the calibration query and reads only the \<open>data\<close> field of
  the response; \<open>calibrationData?.[0] || {...}\<close> is the first row when there is one and
  the identity calibration otherwise. The filters are constructed in the call. The
  default threshold of \<open>isOutlier\<close> is \<open>3\<close>. The result is a sum because the function
  is asynchronous: a rejected promise is \<open>Inl\<close>.
\<close>

definition processSensorData :: "supabase \<Rightarrow> RawSensorData \<Rightarrow> number \<Rightarrow> error + ProcessedSensorData" where
  "processSensorData supabase rawData sensorId =
     (let calibrationData = data (supabase sensorId);
          calibration = (case calibrationData of
                           Some (row # _) \<Rightarrow> calibration.truncate row
                         | _ \<Rightarrow> \<lparr>offset_value = Fin 0, scale_factor = Fin 1\<rparr>)
      in case MovingAverageFilter_new (Fin 5) of Inl e \<Rightarrow> Inl e | Inr depthFilter \<Rightarrow>
         case MovingAverageFilter_new (Fin 5) of Inl e \<Rightarrow> Inl e | Inr turbidityFilter \<Rightarrow>
         case MovingAverageFilter_new (Fin 3) of Inl e \<Rightarrow> Inl e | Inr temperatureFilter \<Rightarrow>
         (let filteredDepth = fst (process depthFilter (raw_depth rawData));
              calibratedDepth = jadd (jmul filteredDepth (scale_factor calibration)) (offset_value calibration);
              filteredTurbidity = fst (process turbidityFilter (raw_turbidity rawData));
              filteredTemperature = fst (process temperatureFilter (raw_temperature rawData));
              sedimentLevel = jadd (jmul filteredTurbidity (Fin 0.8)) (jmul calibratedDepth (Fin 0.2));
              qualityScore = Math_min (Fin 1)
                (jadd (jmul (jdiv (signal_strength rawData) (Fin 100)) (Fin 0.7))
                      (jmul (jdiv (battery_level rawData) (Fin 100)) (Fin 0.3)));
              st = calculateStats [filteredDepth, raw_depth rawData];
              isDepthOutlier = isOutlier (raw_depth rawData) (mean st) (stdDev st) (Fin 3)
          in Inr \<lparr>depth = calibratedDepth,
                  turbidity = filteredTurbidity,
                  temperature = filteredTemperature,
                  sediment_level = sedimentLevel,
                  quality_score = qualityScore,
                  is_outlier = isDepthOutlier\<rparr>))"

section \<open>Binary64 arithmetic\<close>


















section \<open>Notions of the specification\<close>

text \<open>
  The specification speaks of the last \<open>n\<close> inputs, of the arithmetic mean and of the
  population standard deviation (the variance divided by \<open>N\<close>). They are written here
  over the reals, from the specification's words, to be compared with what the code
  computes.
\<close>

definition last_n :: "nat \<Rightarrow> 'a list \<Rightarrow> 'a list" where
  "last_n n xs = drop (length xs - n) xs"

definition arithmetic_mean :: "real list \<Rightarrow> real" where
  "arithmetic_mean xs = sum_list xs / real (length xs)"

definition population_std_dev :: "real list \<Rightarrow> real" where
  "population_std_dev xs = sqrt ((\<Sum>x\<leftarrow>xs. (x - arithmetic_mean xs) ^ 2) / real (length xs))"





section \<open>Sample inputs\<close>

text \<open>
  A reading with full signal and battery, a calibration row, and three behaviours of the
  store client: a failed request, a successful request without rows, and a successful
  request with one row.
\<close>

definition reading_B :: RawSensorData where
  "reading_B = \<lparr>raw_depth = Fin 100, raw_turbidity = Fin 5, raw_temperature = Fin 20,
     voltage = Fin 12, battery_level = Fin 100, signal_strength = Fin 100\<rparr>"


definition store_failing :: supabase where
  "store_failing = (\<lambda>sensorId. \<lparr>data = None, error = Some (Error ''TypeError: fetch failed'')\<rparr>)"

definition store_without_rows :: supabase where
  "store_without_rows = (\<lambda>sensorId. \<lparr>data = Some [], error = None\<rparr>)"


section \<open>Arithmetic on numbers\<close>

lemma jadd_zero_left: "jadd (Fin 0) d = d"
  by (cases d) simp_all


lemma jdiv_one: "jdiv d (Fin 1) = d"
  by (cases d) simp_all



lemma foldl_jadd_Fin: "foldl (\<lambda>a b. jadd a b) (Fin a) (map Fin xs) = Fin (a + sum_list xs)"
  by (induction xs arbitrary: a) (simp_all add: add.assoc)

lemma foldl_squares_Fin:
  "foldl (\<lambda>a b. jadd a (Math_pow_2 (jsub b (Fin m)))) (Fin a) (map Fin xs)
     = Fin (a + (\<Sum>x\<leftarrow>xs. (x - m) ^ 2))"
  by (induction xs arbitrary: a) (simp_all add: jsub_def add.assoc)

lemma mean_Fin:
  assumes "ys \<noteq> []"
  shows "jdiv (foldl (\<lambda>a b. jadd a b) (Fin 0) (map Fin ys)) (array_length (map Fin ys)) = Fin (arithmetic_mean ys)"
  using assms by (simp add: foldl_jadd_Fin array_length_def arithmetic_mean_def)

section \<open>Rounding to binary64\<close>































section \<open>The window of the filter\<close>

text \<open>
  With a window of \<open>N \<ge> 1\<close>, a filter that holds the last \<open>N\<close> values of a history
  holds, after \<open>process\<close>, the last \<open>N\<close> values of the history extended by the input.
\<close>

lemma kept_last_n:
  assumes "1 \<le> N"
  shows "(if jgt (array_length (last_n N hs @ [x])) (Fin (real N)) then tl (last_n N hs @ [x]) else last_n N hs @ [x])
         = last_n N (hs @ [x])"
proof (cases "N \<le> length hs")
  case True
  with assms have ne: "drop (length hs - N) hs \<noteq> []" by simp
  from True assms have "Suc (length hs) - N = Suc (length hs - N)" by simp
  with True ne show ?thesis
    by (simp add: last_n_def array_length_def drop_Suc tl_drop)
next
  case False
  then show ?thesis by (simp add: last_n_def array_length_def)
qed

lemma process_last_n:
  assumes "1 \<le> N" "windowSize f = Fin (real N)" "values' f = last_n N hs"
  shows "process f x = (jdiv (foldl (\<lambda>a b. jadd a b) (Fin 0) (last_n N (hs @ [x]))) (array_length (last_n N (hs @ [x]))),
                        f\<lparr>values' := last_n N (hs @ [x])\<rparr>)"
  using kept_last_n [OF assms(1), of hs x] assms(2,3)
  by (simp add: process_def Let_def)

lemma process_each_values:
  assumes "1 \<le> N" "windowSize f = Fin (real N)" "values' f = last_n N hs"
  shows "values' (snd (process_each f xs)) = last_n N (hs @ xs)
       \<and> windowSize (snd (process_each f xs)) = Fin (real N)"
  using assms
proof (induction xs arbitrary: f hs)
  case Nil
  then show ?case by simp
next
  case (Cons x xs)
  let ?f' = "f\<lparr>values' := last_n N (hs @ [x])\<rparr>"
  have p: "snd (process f x) = ?f'"
    using process_last_n [OF Cons.prems] by simp
  have "values' (snd (process_each ?f' xs)) = last_n N ((hs @ [x]) @ xs)
       \<and> windowSize (snd (process_each ?f' xs)) = Fin (real N)"
    by (rule Cons.IH) (use Cons.prems in simp_all)
  with p show ?case
    by (simp add: split_beta Let_def)
qed

lemma new_filter: "MovingAverageFilter_new w = Inr f \<Longrightarrow> windowSize f = w \<and> values' f = []"
  by (auto simp: MovingAverageFilter_new_def)

lemma fresh_process:
  assumes "1 \<le> w"
  shows "fst (process \<lparr>windowSize = Fin w, values' = []\<rparr> v) = v"
  using assms by (simp add: process_def array_length_def jadd_zero_left jdiv_one)







section \<open>Statistics of a sample\<close>

lemma calculateStats_Fin:
  assumes "xs \<noteq> []"
  shows "calculateStats (map Fin xs) = \<lparr>mean = Fin (arithmetic_mean xs), stdDev = Fin (population_std_dev xs)\<rparr>"
proof -
  have m: "jdiv (foldl (\<lambda>a b. jadd a b) (Fin 0) (map Fin xs)) (array_length (map Fin xs)) = Fin (arithmetic_mean xs)"
    using assms by (rule mean_Fin)
  have nn: "0 \<le> (\<Sum>x\<leftarrow>xs. (x - arithmetic_mean xs) ^ 2) / real (length xs)"
    by (intro divide_nonneg_nonneg sum_list_nonneg) auto
  have v: "Math_sqrt (jdiv (foldl (\<lambda>a b. jadd a (Math_pow_2 (jsub b (Fin (arithmetic_mean xs))))) (Fin 0) (map Fin xs))
              (array_length (map Fin xs))) = Fin (population_std_dev xs)"
    using assms nn by (simp add: foldl_squares_Fin array_length_def population_std_dev_def)
  show ?thesis
    unfolding calculateStats_def Let_def m v ..
qed

lemma pair_stats:
  "calculateStats [Fin s, Fin r] = \<lparr>mean = Fin ((s + r) / 2), stdDev = Fin \<bar>r - (s + r) / 2\<bar>\<rparr>"
proof -
  have m: "arithmetic_mean [s, r] = (s + r) / 2" by (simp add: arithmetic_mean_def)
  have "((s - (s + r) / 2)\<^sup>2 + (r - (s + r) / 2)\<^sup>2) / 2 = (r - (s + r) / 2)\<^sup>2"
    by (simp add: power2_eq_square field_simps)
  then have "population_std_dev [s, r] = sqrt ((r - (s + r) / 2)\<^sup>2)"
    unfolding population_std_dev_def m by simp
  then have sd: "population_std_dev [s, r] = \<bar>r - (s + r) / 2\<bar>" by simp
  have "calculateStats (map Fin [s, r]) = \<lparr>mean = Fin (arithmetic_mean [s, r]), stdDev = Fin (population_std_dev [s, r])\<rparr>"
    by (rule calculateStats_Fin) simp
  then show ?thesis unfolding m sd by simp
qed

lemma same_pair_not_outlier:
  "\<not> isOutlier d (mean (calculateStats [d, d])) (stdDev (calculateStats [d, d])) (Fin 3)"
proof (cases d)
  case (Fin x)
  show ?thesis unfolding Fin pair_stats isOutlier_def by (simp add: jsub_def signed_inf_def)
qed (simp_all add: calculateStats_def isOutlier_def jsub_def array_length_def)















section \<open>The result of processing a reading\<close>

text \<open>
  Every filter of \<open>processSensorData\<close> is new and sees one value, so the function has a
  closed form in the raw reading and the chosen calibration.
\<close>

lemma processSensorData_result:
  "processSensorData supabase rawData sensorId =
     (let calibration = (case data (supabase sensorId) of Some (row # _) \<Rightarrow> calibration.truncate row
                         | _ \<Rightarrow> \<lparr>offset_value = Fin 0, scale_factor = Fin 1\<rparr>);
          calibratedDepth = jadd (jmul (raw_depth rawData) (scale_factor calibration)) (offset_value calibration)
      in Inr \<lparr>depth = calibratedDepth,
              turbidity = raw_turbidity rawData,
              temperature = raw_temperature rawData,
              sediment_level = jadd (jmul (raw_turbidity rawData) (Fin 0.8)) (jmul calibratedDepth (Fin 0.2)),
              quality_score = Math_min (Fin 1)
                (jadd (jmul (jdiv (signal_strength rawData) (Fin 100)) (Fin 0.7))
                      (jmul (jdiv (battery_level rawData) (Fin 100)) (Fin 0.3))),
              is_outlier = False\<rparr>)"
  using same_pair_not_outlier [of "raw_depth rawData"]
  by (simp add: processSensorData_def MovingAverageFilter_new_def fresh_process Let_def)


section \<open>Claims\<close>

text \<open>
  C1. The claim: when the calibration lookup fails with a transient I/O error,
  \<open>processSensorData\<close> propagates the failure and does not substitute the identity
  calibration. The code reads only the \<open>data\<close> field of the response and never its
  \<open>error\<close> field. On the failed request below it returns a processed reading computed
  with offset 0 and scale factor 1, the very result of a successful request without rows,
  while the response carries the error.
\<close>

theorem calibration_failure_masked:
  "processSensorData store_failing reading_B (Fin 7) =
     Inr \<lparr>depth = Fin 100, turbidity = Fin 5, temperature = Fin 20, sediment_level = Fin 24,
          quality_score = Fin 1, is_outlier = False\<rparr>
   \<and> processSensorData store_failing reading_B (Fin 7) = processSensorData store_without_rows reading_B (Fin 7)
   \<and> error (store_failing (Fin 7)) = Some (Error ''TypeError: fetch failed'')"
  by (simp add: processSensorData_result store_failing_def store_without_rows_def reading_B_def)











text \<open>
  C6. For a window \<open>N \<ge> 1\<close>, after any sequence of \<open>process\<close> calls on a new filter
  the array holds the last \<open>N\<close> inputs in their order, so at most \<open>N\<close> values; and a
  call on a full array drops its oldest value and appends the input.
\<close>

theorem window_bounded_fifo:
  "(\<forall>N f xs. 1 \<le> N \<longrightarrow> MovingAverageFilter_new (Fin (real N)) = Inr f \<longrightarrow>
      values' (snd (process_each f xs)) = last_n N xs
      \<and> length (values' (snd (process_each f xs))) \<le> N)
   \<and> (\<forall>N f y ys x. 1 \<le> N \<longrightarrow> windowSize f = Fin (real N) \<longrightarrow> values' f = y # ys \<longrightarrow>
        length (y # ys) = N \<longrightarrow> values' (snd (process f x)) = ys @ [x])"
proof (intro conjI allI impI)
  fix N f xs
  assume N: "1 \<le> N" and f: "MovingAverageFilter_new (Fin (real N)) = Inr f"
  from new_filter [OF f] have w: "windowSize f = Fin (real N)" and v: "values' f = last_n N []"
    by (simp_all add: last_n_def)
  from process_each_values [OF N w v, of xs]
  show e: "values' (snd (process_each f xs)) = last_n N xs" by simp
  then show "length (values' (snd (process_each f xs))) \<le> N"
    by (simp add: last_n_def)
next
  fix N and f :: MovingAverageFilter and y ys x
  assume "1 \<le> N" and "windowSize f = Fin (real N)" and "values' f = y # ys"
    and "length (y # ys) = N"
  then show "values' (snd (process f x)) = ys @ [x]"
    by (auto simp: process_def array_length_def)
qed

theorem window_bounded_fifo_witness:
  "(1::nat) \<le> 2
   \<and> MovingAverageFilter_new (Fin (real (2::nat))) = Inr \<lparr>windowSize = Fin 2, values' = []\<rparr>
   \<and> values' (snd (process_each \<lparr>windowSize = Fin 2, values' = []\<rparr> [Fin 4, Fin 8, Fin 6])) = [Fin 8, Fin 6]
   \<and> length (values' (snd (process_each \<lparr>windowSize = Fin 2, values' = []\<rparr> [Fin 4, Fin 8, Fin 6]))) \<le> 2
   \<and> windowSize \<lparr>windowSize = Fin 2, values' = [Fin 4, Fin 8]\<rparr> = Fin (real (2::nat))
   \<and> length (Fin 4 # [Fin 8]) = 2
   \<and> values' (snd (process \<lparr>windowSize = Fin 2, values' = [Fin 4, Fin 8]\<rparr> (Fin 6))) = [Fin 8] @ [Fin 6]"
proof -
  have n: "(1::nat) \<le> 2" by simp
  have f: "MovingAverageFilter_new (Fin (real (2::nat))) = Inr \<lparr>windowSize = Fin 2, values' = []\<rparr>"
    by (simp add: MovingAverageFilter_new_def)
  have l: "last_n 2 [Fin 4, Fin 8, Fin 6] = [Fin 8, Fin 6]"
    by (simp add: last_n_def)
  have w: "windowSize \<lparr>windowSize = Fin 2, values' = [Fin 4, Fin 8]\<rparr> = Fin (real (2::nat))"
    and v: "values' \<lparr>windowSize = Fin 2, values' = [Fin 4, Fin 8]\<rparr> = Fin 4 # [Fin 8]"
    and c: "length (Fin 4 # [Fin 8]) = 2"
    by simp_all
  from window_bounded_fifo [THEN conjunct1, rule_format, OF n f, of "[Fin 4, Fin 8, Fin 6]"]
  have a: "values' (snd (process_each \<lparr>windowSize = Fin 2, values' = []\<rparr> [Fin 4, Fin 8, Fin 6])) = [Fin 8, Fin 6]"
    and b: "length (values' (snd (process_each \<lparr>windowSize = Fin 2, values' = []\<rparr> [Fin 4, Fin 8, Fin 6]))) \<le> 2"
    unfolding l by blast+
  from window_bounded_fifo [THEN conjunct2, rule_format, OF n w v c, of "Fin 6"]
  have s: "values' (snd (process \<lparr>windowSize = Fin 2, values' = [Fin 4, Fin 8]\<rparr> (Fin 6))) = [Fin 8] @ [Fin 6]" .
  from n f a b w c s show ?thesis by blast
qed

text \<open>
  C7. The claim: constructing a filter with a window size \<open>N \<le> 0\<close> is rejected with a
  validation failure. The constructor has no check: with the window size 0 it returns a
  filter.
\<close>

theorem nonpositive_window_not_rejected_counterexample:
  "\<not> isl (MovingAverageFilter_new (Fin 0))
   \<and> MovingAverageFilter_new (Fin 0) = Inr \<lparr>windowSize = Fin 0, values' = []\<rparr>"
  by (simp add: MovingAverageFilter_new_def)

text \<open>
  C7, as the code has it. Constructing a filter with a window size \<open>N \<le> 0\<close> is not
  rejected: the constructor returns a filter holding \<open>N\<close> and an empty array. On that
  filter every \<open>process\<close> call shifts out the value it has just pushed, leaves the array
  empty and returns \<open>NaN\<close> (\<open>0 / 0\<close>).
\<close>

theorem nonpositive_window_accepted:
  "\<forall>n. n \<le> 0 \<longrightarrow>
     MovingAverageFilter_new (Fin n) = Inr \<lparr>windowSize = Fin n, values' = []\<rparr>
     \<and> (\<forall>v. process \<lparr>windowSize = Fin n, values' = []\<rparr> v = (NaN, \<lparr>windowSize = Fin n, values' = []\<rparr>))"
  by (simp add: MovingAverageFilter_new_def process_def array_length_def signed_inf_def)

theorem nonpositive_window_accepted_witness:
  "(-2::real) \<le> 0
   \<and> MovingAverageFilter_new (Fin (-2)) = Inr \<lparr>windowSize = Fin (-2), values' = []\<rparr>
   \<and> process \<lparr>windowSize = Fin (-2), values' = []\<rparr> (Fin 10) = (NaN, \<lparr>windowSize = Fin (-2), values' = []\<rparr>)"
proof -
  have n: "(-2::real) \<le> 0" by simp
  from nonpositive_window_accepted [rule_format, OF n] n show ?thesis by blast
qed








end

